theory Spec2Isabelle
  imports Main "HOL-Library.AList" "HOL-Library.Sublist"
begin

section \<open>Data model\<close>

text \<open>
  The repository is a FastAPI service over boto3's EC2 client. This theory embeds
  \<^verbatim>\<open>app/models.py\<close>, \<^verbatim>\<open>app/services.py\<close> (class \<^verbatim>\<open>EC2Service\<close>) and the handlers of
  \<^verbatim>\<open>app/routers/ec2.py\<close> that list, summarise and tag instances.

  A provider record is the dict that \<^verbatim>\<open>describe_instances\<close> returns for one instance.
  Every key may be absent (\<open>None\<close>); a key that is present holds a value of the type the
  provider's response shape gives it (a string, a nested dict, a list of tag dicts, a
  datetime). With values of these types the field validation that pydantic runs in
  \<^verbatim>\<open>EC2Instance(...)\<close> accepts every call the translator makes, so the only failures of
  the translator are the missing keys. A timestamp is modelled by its POSIX seconds.
\<close>

type_synonym datetime = int

text \<open>A Python dict that keeps insertion order: an association list with distinct keys.\<close>

type_synonym ('k, 'v) dict = "('k \<times> 'v) list"

record aws_tag =
  Key :: "string option"
  Value :: "string option"

record aws_state =
  Name :: "string option"

record aws_instance =
  InstanceId :: "string option"
  InstanceType :: "string option"
  State :: "aws_state option"
  PublicIpAddress :: "string option"
  PrivateIpAddress :: "string option"
  Tags :: "aws_tag list option"
  LaunchTime :: "datetime option"

record reservation =
  Instances :: "aws_instance list"

record describe_response =
  Reservations :: "reservation list"

text \<open>
  \<^verbatim>\<open>class EC2Instance(BaseModel)\<close> of \<^verbatim>\<open>app/models.py\<close>: three required strings, four
  \<^verbatim>\<open>Optional[str]\<close> fields (so \<open>None\<close> is a value of the field's type) and a datetime.
\<close>

record EC2Instance =
  instance_id :: string
  instance_type :: string
  state :: string
  public_ip :: "string option"
  private_ip :: "string option"
  name :: "string option"
  environment :: "string option"
  launch_time :: datetime

text \<open>
  The exceptions that reach a caller. \<open>ClientError\<close> is botocore's exception for an error
  response of the provider and carries \<^verbatim>\<open>str(e)\<close>; \<open>BotoCoreError\<close> stands for the other
  exceptions a client call can raise (connection, credentials); \<open>HTTPException\<close> carries
  the status code and the detail string; \<open>RequestValidationError\<close> is what FastAPI raises,
  and answers with status 422, when a request does not fit the parameters a handler
  declares; \<open>KeyError\<close> carries the missing key.
\<close>

datatype exn =
    ClientError string
  | BotoCoreError string
  | HTTPException nat string
  | RequestValidationError
  | KeyError string
  | IndexError

section \<open>The translator: \<^verbatim>\<open>EC2Service._convert_to_ec2_instance\<close>\<close>

text \<open>
  \<^verbatim>\<open>d.get(key, default)\<close> on an optional key. A required key is read by \<^verbatim>\<open>d[key]\<close>, which
  raises \<open>KeyError\<close> when the key is absent: the \<open>None\<close> branches of the translator below.
\<close>

definition get_default :: "'a option \<Rightarrow> 'a \<Rightarrow> 'a" where
  "get_default v d = (case v of None \<Rightarrow> d | Some x \<Rightarrow> x)"

text \<open>
  \<^verbatim>\<open>{tag['Key']: tag['Value'] for tag in ...}\<close>: the comprehension stores each tag in turn, a
  later store to the same key replacing the value; a tag without \<^verbatim>\<open>Key\<close> or \<^verbatim>\<open>Value\<close>
  raises \<open>KeyError\<close>.
\<close>

fun build_tags :: "aws_tag list \<Rightarrow> (string, string) dict \<Rightarrow> exn + (string, string) dict" where
  "build_tags [] tags = Inr tags"
| "build_tags (tag # rest) tags =
    (case Key tag of
       None \<Rightarrow> Inl (KeyError ''Key'')
     | Some k \<Rightarrow>
        (case Value tag of
           None \<Rightarrow> Inl (KeyError ''Value'')
         | Some v \<Rightarrow> build_tags rest (AList.update k v tags)))"

text \<open>
  The keyword arguments of \<^verbatim>\<open>EC2Instance(...)\<close> are evaluated in the order written, so the
  first missing required key is the one reported.
\<close>

definition convert_to_ec2_instance :: "aws_instance \<Rightarrow> exn + EC2Instance" where
  "convert_to_ec2_instance aws_instance =
    (case build_tags (get_default (Tags aws_instance) []) [] of
       Inl e \<Rightarrow> Inl e
     | Inr tags \<Rightarrow>
    (case InstanceId aws_instance of
       None \<Rightarrow> Inl (KeyError ''InstanceId'')
     | Some iid \<Rightarrow>
    (case InstanceType aws_instance of
       None \<Rightarrow> Inl (KeyError ''InstanceType'')
     | Some ity \<Rightarrow>
    (case State aws_instance of
       None \<Rightarrow> Inl (KeyError ''State'')
     | Some st \<Rightarrow>
    (case Name st of
       None \<Rightarrow> Inl (KeyError ''Name'')
     | Some st_name \<Rightarrow>
    (case LaunchTime aws_instance of
       None \<Rightarrow> Inl (KeyError ''LaunchTime'')
     | Some lt \<Rightarrow>
        Inr \<lparr> instance_id = iid,
              instance_type = ity,
              state = st_name,
              public_ip = Some (get_default (PublicIpAddress aws_instance) ''''),
              private_ip = Some (get_default (PrivateIpAddress aws_instance) ''''),
              name = Some (get_default (map_of tags ''Name'') ''''),
              environment = Some (get_default (map_of tags ''Environment'') ''''),
              launch_time = lt \<rparr>))))))"

section \<open>The provider client\<close>

text \<open>
  The boto3 client is external: each method takes the provider's state, returns a response
  or raises, and leaves a new provider state. The service is run on a world that pairs the
  provider's state with the log of the requests issued so far, so that what the service
  asks of the provider can be stated.
\<close>

datatype request =
    DescribeInstances "string list option"
  | StartInstances "string list"
  | StopInstances "string list"
  | TerminateInstances "string list"

record 's ec2_client =
  describe_instances :: "string list option \<Rightarrow> 's \<Rightarrow> (exn + describe_response) \<times> 's"
  start_instances :: "string list \<Rightarrow> 's \<Rightarrow> (exn + unit) \<times> 's"
  stop_instances :: "string list \<Rightarrow> 's \<Rightarrow> (exn + unit) \<times> 's"
  terminate_instances :: "string list \<Rightarrow> 's \<Rightarrow> (exn + unit) \<times> 's"

type_synonym 's world = "'s \<times> request list"

definition invoke :: "request \<Rightarrow> ('s \<Rightarrow> (exn + 'a) \<times> 's) \<Rightarrow> 's world \<Rightarrow> (exn + 'a) \<times> 's world" where
  "invoke req call w =
    (case w of (s, log) \<Rightarrow>
      (case call s of (r, s') \<Rightarrow> (r, (s', log @ [req]))))"

text \<open>
  \<^verbatim>\<open>except ClientError as e: raise HTTPException(status_code=..., detail=f"...{str(e)}")\<close>
  around a \<^verbatim>\<open>try\<close> body: only a \<open>ClientError\<close> is caught, everything else passes.
\<close>

definition except_ClientError :: "(string \<Rightarrow> exn) \<Rightarrow> exn + 'a \<Rightarrow> exn + 'a" where
  "except_ClientError handler r =
    (case r of Inl (ClientError e) \<Rightarrow> Inl (handler e) | _ \<Rightarrow> r)"

section \<open>The service: \<^verbatim>\<open>EC2Service\<close>\<close>

definition get_instance_body :: "'s ec2_client \<Rightarrow> string \<Rightarrow> 's world \<Rightarrow> (exn + EC2Instance) \<times> 's world" where
  "get_instance_body client iid w =
    (case invoke (DescribeInstances (Some [iid])) (describe_instances client (Some [iid])) w of
       (Inl e, w') \<Rightarrow> (Inl e, w')
     | (Inr response, w') \<Rightarrow>
        (case Reservations response of
           [] \<Rightarrow> (Inl (HTTPException 404 (''Instance '' @ iid @ '' not found'')), w')
         | r # _ \<Rightarrow>
            (case Instances r of
               [] \<Rightarrow> (Inl IndexError, w')
             | instance # _ \<Rightarrow> (convert_to_ec2_instance instance, w'))))"

definition get_instance :: "'s ec2_client \<Rightarrow> string \<Rightarrow> 's world \<Rightarrow> (exn + EC2Instance) \<times> 's world" where
  "get_instance client iid w =
    (case get_instance_body client iid w of
       (r, w') \<Rightarrow>
        (except_ClientError
           (\<lambda>e. HTTPException 404 (''Failed to get instance '' @ iid @ '': '' @ e)) r, w'))"

text \<open>
  The two nested \<^verbatim>\<open>for\<close> loops of \<^verbatim>\<open>list_instances\<close>, appending to \<^verbatim>\<open>instances\<close>; the first
  record that fails to translate ends the loops with its exception.
\<close>

fun convert_each :: "aws_instance list \<Rightarrow> EC2Instance list \<Rightarrow> exn + EC2Instance list" where
  "convert_each [] instances = Inr instances"
| "convert_each (instance # rest) instances =
    (case convert_to_ec2_instance instance of
       Inl e \<Rightarrow> Inl e
     | Inr i \<Rightarrow> convert_each rest (instances @ [i]))"

fun convert_reservations :: "reservation list \<Rightarrow> EC2Instance list \<Rightarrow> exn + EC2Instance list" where
  "convert_reservations [] instances = Inr instances"
| "convert_reservations (r # rest) instances =
    (case convert_each (Instances r) instances of
       Inl e \<Rightarrow> Inl e
     | Inr instances' \<Rightarrow> convert_reservations rest instances')"

definition list_instances :: "'s ec2_client \<Rightarrow> 's world \<Rightarrow> (exn + EC2Instance list) \<times> 's world" where
  "list_instances client w =
    (case invoke (DescribeInstances None) (describe_instances client None) w of
       (r, w') \<Rightarrow>
        (except_ClientError (\<lambda>e. HTTPException 400 (''Failed to list instances: '' @ e))
           (case r of
              Inl e \<Rightarrow> Inl e
            | Inr response \<Rightarrow> convert_reservations (Reservations response) []), w'))"

text \<open>
  \<^verbatim>\<open>start_instance\<close>, \<^verbatim>\<open>stop_instance\<close> and \<^verbatim>\<open>terminate_instance\<close>: the mutating call and
  \<^verbatim>\<open>return self.get_instance(instance_id)\<close> stand inside one \<^verbatim>\<open>try\<close>, so the handler sees
  the exceptions of both.
\<close>

definition start_instance :: "'s ec2_client \<Rightarrow> string \<Rightarrow> 's world \<Rightarrow> (exn + EC2Instance) \<times> 's world" where
  "start_instance client iid w =
    (case (case invoke (StartInstances [iid]) (start_instances client [iid]) w of
             (Inl e, w') \<Rightarrow> (Inl e, w')
           | (Inr _, w') \<Rightarrow> get_instance client iid w') of
       (r, w'') \<Rightarrow>
        (except_ClientError
           (\<lambda>e. HTTPException 400 (''Failed to start instance '' @ iid @ '': '' @ e)) r, w''))"

definition stop_instance :: "'s ec2_client \<Rightarrow> string \<Rightarrow> 's world \<Rightarrow> (exn + EC2Instance) \<times> 's world" where
  "stop_instance client iid w =
    (case (case invoke (StopInstances [iid]) (stop_instances client [iid]) w of
             (Inl e, w') \<Rightarrow> (Inl e, w')
           | (Inr _, w') \<Rightarrow> get_instance client iid w') of
       (r, w'') \<Rightarrow>
        (except_ClientError
           (\<lambda>e. HTTPException 400 (''Failed to stop instance '' @ iid @ '': '' @ e)) r, w''))"

definition terminate_instance :: "'s ec2_client \<Rightarrow> string \<Rightarrow> 's world \<Rightarrow> (exn + EC2Instance) \<times> 's world" where
  "terminate_instance client iid w =
    (case (case invoke (TerminateInstances [iid]) (terminate_instances client [iid]) w of
             (Inl e, w') \<Rightarrow> (Inl e, w')
           | (Inr _, w') \<Rightarrow> get_instance client iid w') of
       (r, w'') \<Rightarrow>
        (except_ClientError
           (\<lambda>e. HTTPException 400 (''Failed to terminate instance '' @ iid @ '': '' @ e)) r, w''))"

section \<open>The handlers of \<^verbatim>\<open>app/routers/ec2.py\<close>\<close>

text \<open>
  The handlers \<^verbatim>\<open>get_instance\<close>, \<^verbatim>\<open>start_instance\<close>, \<^verbatim>\<open>stop_instance\<close> and
  \<^verbatim>\<open>terminate_instance\<close> return what the service method of the same name returns and have no
  definition of their own. Those below do work of their own; \<open>service\<close> is the
  \<^verbatim>\<open>EC2Service\<close> that the dependency \<^verbatim>\<open>get_instance_service\<close> builds for the request, which
  creates the client object and asks nothing of the provider. The service method
  \<^verbatim>\<open>list_instances\<close> keeps its name; the handler of that name is \<open>list_instances_route\<close>.
\<close>

text \<open>Python's truth value of an \<^verbatim>\<open>Optional[str]\<close>: \<open>None\<close> and the empty string are false.\<close>

definition truthy :: "string option \<Rightarrow> bool" where
  "truthy v = (case v of None \<Rightarrow> False | Some s \<Rightarrow> s \<noteq> [])"

text \<open>The two \<^verbatim>\<open>if\<close> statements of the handler \<^verbatim>\<open>list_instances\<close>, each a list comprehension.\<close>

definition apply_filters :: "string option \<Rightarrow> string option \<Rightarrow> EC2Instance list \<Rightarrow> EC2Instance list" where
  "apply_filters environment_q instance_type_q instances =
    (let instances1 =
           (if truthy environment_q
            then filter (\<lambda>i. environment i = environment_q) instances
            else instances);
         instances2 =
           (if truthy instance_type_q
            then filter (\<lambda>i. Some (instance_type i) = instance_type_q) instances1
            else instances1)
     in instances2)"

definition list_instances_route ::
  "'s ec2_client \<Rightarrow> string option \<Rightarrow> string option \<Rightarrow> 's world \<Rightarrow> (exn + EC2Instance list) \<times> 's world" where
  "list_instances_route service environment_q instance_type_q w =
    (case list_instances service w of
       (Inl e, w') \<Rightarrow> (Inl e, w')
     | (Inr instances, w') \<Rightarrow> (Inr (apply_filters environment_q instance_type_q instances), w'))"

text \<open>
  \<^verbatim>\<open>status_count[instance.state] = status_count.get(instance.state, 0) + 1\<close> for each
  instance in turn.
\<close>

fun count_states :: "EC2Instance list \<Rightarrow> (string, nat) dict \<Rightarrow> (string, nat) dict" where
  "count_states [] status_count = status_count"
| "count_states (instance # rest) status_count =
    count_states rest
      (AList.update (state instance)
         (get_default (map_of status_count (state instance)) 0 + 1) status_count)"

record status_summary =
  total_instances :: nat
  status_breakdown :: "(string, nat) dict"
  timestamp :: datetime

text \<open>\<^verbatim>\<open>datetime.utcnow()\<close> reads the clock: the reading is the parameter \<open>now\<close>.\<close>

definition get_status_summary ::
  "'s ec2_client \<Rightarrow> datetime \<Rightarrow> 's world \<Rightarrow> (exn + status_summary) \<times> 's world" where
  "get_status_summary service now w =
    (case list_instances service w of
       (Inl e, w') \<Rightarrow> (Inl e, w')
     | (Inr instances, w') \<Rightarrow>
        (Inr \<lparr> total_instances = length instances,
                status_breakdown = count_states instances [],
                timestamp = now \<rparr>, w'))"

text \<open>
  The route \<^verbatim>\<open>POST /{instance_id}/tags\<close>. The handler declares \<^verbatim>\<open>tags: dict\<close>, which FastAPI
  reads from the request body: the body must be present, parse as JSON and be a JSON
  object, or the request is refused with \<open>RequestValidationError\<close> before the handler
  runs. A request body is absent, text that is not JSON, or a JSON value.
\<close>

datatype json =
    JNull
  | JBool bool
  | JNumber int
  | JString string
  | JArray "json list"
  | JObject "(string \<times> json) list"

datatype request_body =
    NoBody
  | NotJson string
  | JsonBody json

text \<open>The handler \<^verbatim>\<open>update_instance_tags\<close>: its body is the one \<^verbatim>\<open>raise\<close>.\<close>

definition update_instance_tags ::
  "'s ec2_client \<Rightarrow> string \<Rightarrow> (string, json) dict \<Rightarrow> 's world \<Rightarrow> (exn + EC2Instance) \<times> 's world" where
  "update_instance_tags service iid tags w =
    (Inl (HTTPException 501 ''Tag update functionality not implemented yet''), w)"

text \<open>The route: the validation of the body against \<^verbatim>\<open>tags: dict\<close>, then the handler.\<close>

definition update_instance_tags_route ::
  "'s ec2_client \<Rightarrow> string \<Rightarrow> request_body \<Rightarrow> 's world \<Rightarrow> (exn + EC2Instance) \<times> 's world" where
  "update_instance_tags_route service iid body w =
    (case body of
       JsonBody (JObject tags) \<Rightarrow> update_instance_tags service iid tags w
     | _ \<Rightarrow> (Inl RequestValidationError, w))"

section \<open>Vocabulary of the properties\<close>

text \<open>
  The error kinds of the specification, as the service raises them: each is an
  \<open>HTTPException\<close> with the status code and detail of the \<^verbatim>\<open>raise\<close> statement it comes
  from. A missing key of a provider record surfaces as Python's \<open>KeyError\<close>.
\<close>

definition InstanceNotFound :: "string \<Rightarrow> exn" where
  "InstanceNotFound iid = HTTPException 404 (''Instance '' @ iid @ '' not found'')"

definition ProviderQueryFailed :: "exn \<Rightarrow> bool" where
  "ProviderQueryFailed e =
    (case e of
       HTTPException code detail \<Rightarrow>
         code = 400 \<and> prefix ''Failed to list instances: '' detail \<or>
         code = 404 \<and> prefix ''Failed to get instance '' detail
     | _ \<Rightarrow> False)"

definition NotImplemented :: exn where
  "NotImplemented = HTTPException 501 ''Tag update functionality not implemented yet''"

text \<open>A record lacks a required field: the id, the type, the nested state name or the launch time.\<close>

definition missing_required :: "aws_instance \<Rightarrow> bool" where
  "missing_required r =
    (InstanceId r = None \<or> InstanceType r = None \<or>
     (case State r of None \<Rightarrow> True | Some st \<Rightarrow> Name st = None) \<or>
     LaunchTime r = None)"

text \<open>The value of the last tag of the list that carries the key, if there is one.\<close>

definition last_tag_value :: "string \<Rightarrow> aws_tag list \<Rightarrow> string option" where
  "last_tag_value k ts =
    (case filter (\<lambda>t. Key t = Some k) ts of [] \<Rightarrow> None | t # rest \<Rightarrow> Value (last (t # rest)))"

text \<open>The records of a response, in the order the provider lists them.\<close>

definition records_of :: "describe_response \<Rightarrow> aws_instance list" where
  "records_of response = concat (map Instances (Reservations response))"

text \<open>A request that changes the provider's state.\<close>

fun mutating :: "request \<Rightarrow> bool" where
  "mutating (DescribeInstances ids) = False"
| "mutating (StartInstances ids) = True"
| "mutating (StopInstances ids) = True"
| "mutating (TerminateInstances ids) = True"

text \<open>
  The result of \<^verbatim>\<open>get_instance\<close> as a function of what the describe call returned: the
  \<^verbatim>\<open>try\<close> body and its handler in one case distinction.
\<close>

definition get_result :: "string \<Rightarrow> exn + describe_response \<Rightarrow> exn + EC2Instance" where
  "get_result iid r =
    (case r of
       Inl (ClientError e) \<Rightarrow>
         Inl (HTTPException 404 (''Failed to get instance '' @ iid @ '': '' @ e))
     | Inl e \<Rightarrow> Inl e
     | Inr response \<Rightarrow>
        (case Reservations response of
           [] \<Rightarrow> Inl (InstanceNotFound iid)
         | r0 # _ \<Rightarrow>
            (case Instances r0 of
               [] \<Rightarrow> Inl IndexError
             | i0 # _ \<Rightarrow> convert_to_ec2_instance i0)))"

section \<open>Test doubles of the provider\<close>

text \<open>
  \<open>replay\<close> answers every describe call with the response it holds and accepts every
  mutating call without effect. \<open>test_double\<close> holds a list of records, answers a describe
  call with one reservation per matching record, and reports the new power state at once
  after a mutating call.
\<close>

definition replay :: "describe_response ec2_client" where
  "replay =
    \<lparr> describe_instances = (\<lambda>ids s. (Inr s, s)),
      start_instances = (\<lambda>ids s. (Inr (), s)),
      stop_instances = (\<lambda>ids s. (Inr (), s)),
      terminate_instances = (\<lambda>ids s. (Inr (), s)) \<rparr>"

definition has_id :: "string list option \<Rightarrow> aws_instance \<Rightarrow> bool" where
  "has_id ids r =
    (case ids of
       None \<Rightarrow> True
     | Some l \<Rightarrow> (case InstanceId r of None \<Rightarrow> False | Some x \<Rightarrow> x \<in> set l))"

definition set_power_state :: "string \<Rightarrow> string list \<Rightarrow> aws_instance list \<Rightarrow> aws_instance list" where
  "set_power_state st ids s =
    map (\<lambda>r. if has_id (Some ids) r then r\<lparr>State := Some \<lparr>Name = Some st\<rparr>\<rparr> else r) s"

definition test_double :: "aws_instance list ec2_client" where
  "test_double =
    \<lparr> describe_instances =
        (\<lambda>ids s. (Inr \<lparr>Reservations = map (\<lambda>r. \<lparr>Instances = [r]\<rparr>) (filter (has_id ids) s)\<rparr>, s)),
      start_instances = (\<lambda>ids s. (Inr (), set_power_state ''running'' ids s)),
      stop_instances = (\<lambda>ids s. (Inr (), set_power_state ''stopped'' ids s)),
      terminate_instances = (\<lambda>ids s. (Inr (), set_power_state ''shutting-down'' ids s)) \<rparr>"

text \<open>The two instances of the specification's end-to-end scenario, and a record without an id.\<close>

definition record_i1 :: aws_instance where
  "record_i1 =
    \<lparr> InstanceId = Some ''i-1'', InstanceType = Some ''t2.micro'',
      State = Some \<lparr>Name = Some ''running''\<rparr>,
      PublicIpAddress = None, PrivateIpAddress = None,
      Tags = Some [\<lparr>Key = Some ''Environment'', Value = Some ''prod''\<rparr>],
      LaunchTime = Some 1700000000 \<rparr>"

definition record_i2 :: aws_instance where
  "record_i2 =
    \<lparr> InstanceId = Some ''i-2'', InstanceType = Some ''t2.large'',
      State = Some \<lparr>Name = Some ''stopped''\<rparr>,
      PublicIpAddress = Some ''203.0.113.7'', PrivateIpAddress = Some ''10.0.0.7'',
      Tags = Some [\<lparr>Key = Some ''Environment'', Value = Some ''dev''\<rparr>],
      LaunchTime = Some 1700000600 \<rparr>"

definition record_no_id :: aws_instance where
  "record_no_id = record_i1\<lparr>InstanceId := None\<rparr>"

definition instance_i1 :: EC2Instance where
  "instance_i1 =
    \<lparr> instance_id = ''i-1'', instance_type = ''t2.micro'', state = ''running'',
      public_ip = Some '''', private_ip = Some '''', name = Some '''',
      environment = Some ''prod'', launch_time = 1700000000 \<rparr>"

definition instance_i2 :: EC2Instance where
  "instance_i2 =
    \<lparr> instance_id = ''i-2'', instance_type = ''t2.large'', state = ''stopped'',
      public_ip = Some ''203.0.113.7'', private_ip = Some ''10.0.0.7'', name = Some '''',
      environment = Some ''dev'', launch_time = 1700000600 \<rparr>"

text \<open>A record with the required keys only, and one whose tag list repeats both keys.\<close>

definition record_bare :: aws_instance where
  "record_bare =
    \<lparr> InstanceId = Some ''i-3'', InstanceType = Some ''t3.nano'',
      State = Some \<lparr>Name = Some ''pending''\<rparr>,
      PublicIpAddress = None, PrivateIpAddress = None, Tags = None,
      LaunchTime = Some 1700001200 \<rparr>"

definition record_dup_tags :: aws_instance where
  "record_dup_tags =
    record_bare
      \<lparr> Tags := Some [\<lparr>Key = Some ''Name'', Value = Some ''old''\<rparr>,
                      \<lparr>Key = Some ''Environment'', Value = Some ''dev''\<rparr>,
                      \<lparr>Key = Some ''Name'', Value = Some ''new''\<rparr>,
                      \<lparr>Key = Some ''Environment'', Value = Some ''prod''\<rparr>,
                      \<lparr>Key = Some ''Owner'', Value = Some ''ops''\<rparr>] \<rparr>"

text \<open>A provider that refuses every call with an error response.\<close>

definition denying :: "unit ec2_client" where
  "denying =
    \<lparr> describe_instances = (\<lambda>ids s. (Inl (ClientError ''AuthFailure''), s)),
      start_instances = (\<lambda>ids s. (Inl (ClientError ''AuthFailure''), s)),
      stop_instances = (\<lambda>ids s. (Inl (ClientError ''AuthFailure''), s)),
      terminate_instances = (\<lambda>ids s. (Inl (ClientError ''AuthFailure''), s)) \<rparr>"

text \<open>A provider that cannot be reached: every call raises a connection error.\<close>

definition unreachable :: "unit ec2_client" where
  "unreachable =
    \<lparr> describe_instances = (\<lambda>ids s. (Inl (BotoCoreError ''EndpointConnectionError''), s)),
      start_instances = (\<lambda>ids s. (Inl (BotoCoreError ''EndpointConnectionError''), s)),
      stop_instances = (\<lambda>ids s. (Inl (BotoCoreError ''EndpointConnectionError''), s)),
      terminate_instances = (\<lambda>ids s. (Inl (BotoCoreError ''EndpointConnectionError''), s)) \<rparr>"

text \<open>A record whose id is the empty string.\<close>

definition record_empty_id :: aws_instance where
  "record_empty_id = record_i1\<lparr>InstanceId := Some ''''\<rparr>"

text \<open>What the translator returns for the records above.\<close>

definition instance_bare :: EC2Instance where
  "instance_bare =
    \<lparr> instance_id = ''i-3'', instance_type = ''t3.nano'', state = ''pending'',
      public_ip = Some '''', private_ip = Some '''', name = Some '''',
      environment = Some '''', launch_time = 1700001200 \<rparr>"

definition instance_dup :: EC2Instance where
  "instance_dup =
    \<lparr> instance_id = ''i-3'', instance_type = ''t3.nano'', state = ''pending'',
      public_ip = Some '''', private_ip = Some '''', name = Some ''new'',
      environment = Some ''prod'', launch_time = 1700001200 \<rparr>"

section \<open>Lemmas about the translator and the loops\<close>

lemma build_tags_KeyError: "build_tags ts acc = Inl e \<Longrightarrow> \<exists>k. e = KeyError k"
  by (induction ts arbitrary: acc) (auto split: option.splits)

lemma build_tags_lookup:
  "build_tags ts acc = Inr d \<Longrightarrow>
   map_of d k =
     (case filter (\<lambda>t. Key t = Some k) ts of
        [] \<Rightarrow> map_of acc k
      | t # rest \<Rightarrow> Value (last (t # rest)))"
proof (induction ts arbitrary: acc)
  case Nil
  then show ?case by simp
next
  case (Cons tag rest)
  from Cons.prems obtain k' v where kv: "Key tag = Some k'" "Value tag = Some v"
    and rec: "build_tags rest (AList.update k' v acc) = Inr d"
    by (auto split: option.splits)
  from Cons.IH [OF rec] show ?case
    using kv by (auto simp: update_conv' split: list.splits)
qed

lemma build_tags_last: "build_tags ts [] = Inr d \<Longrightarrow> map_of d k = last_tag_value k ts"
  by (simp add: build_tags_lookup last_tag_value_def split: list.splits)

lemma build_tags_total:
  "\<forall>t\<in>set ts. Key t \<noteq> None \<and> Value t \<noteq> None \<Longrightarrow> \<exists>d. build_tags ts acc = Inr d"
  by (induction ts arbitrary: acc) auto

lemma convert_KeyError: "convert_to_ec2_instance r = Inl e \<Longrightarrow> \<exists>k. e = KeyError k"
  by (auto simp: convert_to_ec2_instance_def split: sum.splits option.splits
      dest: build_tags_KeyError)

lemma convert_fields:
  assumes "convert_to_ec2_instance r = Inr i"
  shows "InstanceId r = Some (instance_id i)"
    and "InstanceType r = Some (instance_type i)"
    and "map_option Name (State r) = Some (Some (state i))"
    and "LaunchTime r = Some (launch_time i)"
    and "public_ip i = Some (get_default (PublicIpAddress r) '''')"
    and "private_ip i = Some (get_default (PrivateIpAddress r) '''')"
    and "name i = Some (get_default (last_tag_value ''Name'' (get_default (Tags r) [])) '''')"
    and "environment i =
           Some (get_default (last_tag_value ''Environment'' (get_default (Tags r) [])) '''')"
  using assms
  by (auto simp: convert_to_ec2_instance_def build_tags_last split: sum.splits option.splits)

lemma convert_missing:
  "missing_required r \<Longrightarrow> \<exists>k. convert_to_ec2_instance r = Inl (KeyError k)"
proof (cases "convert_to_ec2_instance r")
  case (Inl e)
  then show ?thesis using convert_KeyError by blast
next
  case (Inr i)
  assume "missing_required r"
  with convert_fields(1-4) [OF Inr] show ?thesis
    by (auto simp: missing_required_def split: option.splits)
qed

lemma convert_total:
  assumes "\<not> missing_required r"
    and "\<forall>t\<in>set (get_default (Tags r) []). Key t \<noteq> None \<and> Value t \<noteq> None"
  shows "\<exists>i. convert_to_ec2_instance r = Inr i"
proof -
  from build_tags_total [OF assms(2)] obtain d
    where "build_tags (get_default (Tags r) []) [] = Inr d" by blast
  with assms(1) show ?thesis
    by (auto simp: convert_to_ec2_instance_def missing_required_def split: option.splits)
qed

lemma convert_each_Inr:
  "convert_each rs acc = Inr out \<Longrightarrow>
   map Inr out = map Inr acc @ map convert_to_ec2_instance rs"
  by (induction rs arbitrary: acc) (auto split: sum.splits)

lemma convert_each_Inl:
  "convert_each rs acc = Inl e \<Longrightarrow> \<exists>r\<in>set rs. convert_to_ec2_instance r = Inl e"
  by (induction rs arbitrary: acc) (auto split: sum.splits)

lemma convert_each_fails:
  "r \<in> set rs \<Longrightarrow> convert_to_ec2_instance r = Inl e \<Longrightarrow> \<exists>e'. convert_each rs acc = Inl e'"
  by (induction rs arbitrary: acc) (auto split: sum.splits)

lemma convert_reservations_Inr:
  "convert_reservations rs acc = Inr out \<Longrightarrow>
   map Inr out = map Inr acc @ map convert_to_ec2_instance (concat (map Instances rs))"
proof (induction rs arbitrary: acc)
  case Nil
  then show ?case by simp
next
  case (Cons r rest)
  from Cons.prems obtain mid where mid: "convert_each (Instances r) acc = Inr mid"
    and rest: "convert_reservations rest mid = Inr out"
    by (auto split: sum.splits)
  from Cons.IH [OF rest] convert_each_Inr [OF mid] show ?case by simp
qed

lemma convert_reservations_Inl:
  "convert_reservations rs acc = Inl e \<Longrightarrow>
   \<exists>r\<in>set (concat (map Instances rs)). convert_to_ec2_instance r = Inl e"
proof (induction rs arbitrary: acc)
  case Nil
  then show ?case by simp
next
  case (Cons r rest)
  show ?case
  proof (cases "convert_each (Instances r) acc")
    case (Inl e')
    with Cons.prems have "e' = e" by simp
    with convert_each_Inl Inl show ?thesis by fastforce
  next
    case (Inr mid)
    with Cons.prems have "convert_reservations rest mid = Inl e" by simp
    from Cons.IH [OF this] show ?thesis by auto
  qed
qed

lemma convert_reservations_fails:
  "r \<in> set (concat (map Instances rs)) \<Longrightarrow> convert_to_ec2_instance r = Inl e \<Longrightarrow>
   \<exists>e'. convert_reservations rs acc = Inl e'"
proof (induction rs arbitrary: acc)
  case Nil
  then show ?case by simp
next
  case (Cons r0 rest)
  show ?case
  proof (cases "convert_each (Instances r0) acc")
    case (Inl e')
    then show ?thesis by simp
  next
    case (Inr mid)
    have "r \<notin> set (Instances r0)"
    proof
      assume "r \<in> set (Instances r0)"
      from convert_each_fails [OF this Cons.prems(2), of acc] Inr show False by simp
    qed
    with Cons.prems have "r \<in> set (concat (map Instances rest))" by simp
    from Cons.IH [OF this Cons.prems(2)] Inr show ?thesis by simp
  qed
qed

lemma convert_reservations_total:
  "\<forall>r\<in>set (concat (map Instances rs)). \<exists>i. convert_to_ec2_instance r = Inr i \<Longrightarrow>
   \<exists>out. convert_reservations rs acc = Inr out"
proof (cases "convert_reservations rs acc")
  case (Inl e)
  assume a: "\<forall>r\<in>set (concat (map Instances rs)). \<exists>i. convert_to_ec2_instance r = Inr i"
  from convert_reservations_Inl [OF Inl] a show ?thesis by fastforce
next
  case (Inr out)
  then show ?thesis by blast
qed

lemma except_ClientError_simps:
  "except_ClientError h (Inr x) = Inr x"
  "except_ClientError h (Inl (ClientError m)) = Inl (h m)"
  "except_ClientError h (Inl (BotoCoreError m)) = Inl (BotoCoreError m)"
  "except_ClientError h (Inl (HTTPException c m)) = Inl (HTTPException c m)"
  "except_ClientError h (Inl RequestValidationError) = Inl RequestValidationError"
  "except_ClientError h (Inl (KeyError m)) = Inl (KeyError m)"
  "except_ClientError h (Inl IndexError) = Inl IndexError"
  by (simp_all add: except_ClientError_def)

lemma except_ClientError_convert:
  "except_ClientError h (convert_to_ec2_instance r) = convert_to_ec2_instance r"
  by (cases "convert_to_ec2_instance r")
     (auto simp: except_ClientError_simps dest: convert_KeyError)

lemma except_ClientError_reservations:
  "except_ClientError h (convert_reservations rs acc) = convert_reservations rs acc"
proof (cases "convert_reservations rs acc")
  case (Inl e)
  from convert_reservations_Inl [OF Inl] convert_KeyError obtain k where "e = KeyError k"
    by blast
  with Inl show ?thesis by (simp add: except_ClientError_simps)
next
  case (Inr out)
  then show ?thesis by (simp add: except_ClientError_simps)
qed

lemma get_instance_eq:
  "get_instance client iid (s, log) =
    (get_result iid (fst (describe_instances client (Some [iid]) s)),
     (snd (describe_instances client (Some [iid]) s), log @ [DescribeInstances (Some [iid])]))"
  by (cases "describe_instances client (Some [iid]) s")
     (auto simp: get_instance_def get_instance_body_def invoke_def get_result_def
        InstanceNotFound_def except_ClientError_simps except_ClientError_convert
        split: sum.splits list.splits exn.splits)

lemma get_result_not_ClientError: "get_result iid r \<noteq> Inl (ClientError m)"
  by (auto simp: get_result_def InstanceNotFound_def split: sum.splits list.splits exn.splits
      dest: convert_KeyError)

lemma build_tags_wf:
  "build_tags ts acc = Inr d \<Longrightarrow> t \<in> set ts \<Longrightarrow> Key t \<noteq> None \<and> Value t \<noteq> None"
  by (induction ts arbitrary: acc) (auto split: option.splits)

lemma convert_tags_wf:
  "convert_to_ec2_instance r = Inr i \<Longrightarrow> t \<in> set (get_default (Tags r) []) \<Longrightarrow>
   Key t \<noteq> None \<and> Value t \<noteq> None"
  by (auto simp: convert_to_ec2_instance_def split: sum.splits option.splits
      dest: build_tags_wf)

lemma last_tag_value_absent: "Some k \<notin> Key ` set ts \<Longrightarrow> last_tag_value k ts = None"
proof -
  assume "Some k \<notin> Key ` set ts"
  then have "\<forall>t\<in>set ts. Key t \<noteq> Some k"
    by (metis image_eqI)
  then have "filter (\<lambda>t. Key t = Some k) ts = []"
    by (simp add: filter_empty_conv)
  then show ?thesis by (simp add: last_tag_value_def)
qed

lemma last_tag_value_snoc:
  "(case xs @ [t] of [] \<Rightarrow> None | a # rest \<Rightarrow> Value (last (a # rest))) = Value t"
  by (cases xs) auto

lemma last_tag_value_split:
  assumes "Key t = Some k" and "\<forall>u\<in>set ts2. Key u \<noteq> Some k"
  shows "last_tag_value k (ts1 @ t # ts2) = Value t"
proof -
  from assms(2) have "filter (\<lambda>t. Key t = Some k) ts2 = []"
    by (simp add: filter_empty_conv)
  with assms(1) have "filter (\<lambda>t. Key t = Some k) (ts1 @ t # ts2)
      = filter (\<lambda>t. Key t = Some k) ts1 @ [t]"
    by simp
  then show ?thesis
    unfolding last_tag_value_def by (simp only: last_tag_value_snoc)
qed

lemma convert_bare: "convert_to_ec2_instance record_bare = Inr instance_bare"
  by (simp add: convert_to_ec2_instance_def record_bare_def instance_bare_def get_default_def)

lemma convert_dup: "convert_to_ec2_instance record_dup_tags = Inr instance_dup"
  by (simp add: convert_to_ec2_instance_def record_dup_tags_def record_bare_def
      instance_dup_def get_default_def)

section \<open>Lemmas about the service and the handlers\<close>

lemma list_instances_eq:
  "list_instances client (s, log) =
    ((case fst (describe_instances client None s) of
        Inl (ClientError e) \<Rightarrow> Inl (HTTPException 400 (''Failed to list instances: '' @ e))
      | Inl e \<Rightarrow> Inl e
      | Inr response \<Rightarrow> convert_reservations (Reservations response) []),
     (snd (describe_instances client None s), log @ [DescribeInstances None]))"
  by (cases "describe_instances client None s")
     (auto simp: list_instances_def invoke_def except_ClientError_simps
        except_ClientError_reservations split: sum.splits exn.splits)

lemma convert_no_id: "convert_to_ec2_instance record_no_id = Inl (KeyError ''InstanceId'')"
  by (simp add: convert_to_ec2_instance_def record_no_id_def record_i1_def get_default_def)

lemma convert_i1: "convert_to_ec2_instance record_i1 = Inr instance_i1"
  by (simp add: convert_to_ec2_instance_def record_i1_def instance_i1_def get_default_def)

lemma convert_i2: "convert_to_ec2_instance record_i2 = Inr instance_i2"
  by (simp add: convert_to_ec2_instance_def record_i2_def instance_i2_def get_default_def)

lemma replay_describe: "describe_instances replay ids s = (Inr s, s)"
  by (simp add: replay_def)

lemma truthy_iff: "truthy v \<longleftrightarrow> v \<noteq> None \<and> v \<noteq> Some ''''"
  by (cases v) (auto simp: truthy_def)

lemma apply_filters_eq:
  "apply_filters e t xs =
     filter (\<lambda>i. (truthy e \<longrightarrow> environment i = e) \<and> (truthy t \<longrightarrow> Some (instance_type i) = t)) xs"
  by (auto simp: apply_filters_def Let_def intro: filter_cong)

lemma list_instances_route_eq:
  "fst (list_instances service w) = Inr xs \<Longrightarrow>
   list_instances_route service e t w = (Inr (apply_filters e t xs), snd (list_instances service w))"
  by (cases "list_instances service w") (auto simp: list_instances_route_def)

lemma list_two:
  "list_instances test_double ([record_i1, record_i2], log) =
     (Inr [instance_i1, instance_i2], ([record_i1, record_i2], log @ [DescribeInstances None]))"
  by (simp add: list_instances_eq test_double_def has_id_def convert_i1 convert_i2)

lemma denying_describe: "describe_instances denying ids s = (Inl (ClientError ''AuthFailure''), s)"
  by (simp add: denying_def)

lemma unreachable_describe:
  "describe_instances unreachable ids s = (Inl (BotoCoreError ''EndpointConnectionError''), s)"
  by (simp add: unreachable_def)

text \<open>
  A first reservation that lists no instance: the \<^verbatim>\<open>Reservations\<close> list is guarded, the
  \<^verbatim>\<open>Instances\<close> list is not, and \<^verbatim>\<open>['Instances'][0]\<close> raises.
\<close>

lemma get_instance_empty_first_reservation:
  "fst (get_instance replay ''i-1'' (\<lparr>Reservations = [\<lparr>Instances = []\<rparr>]\<rparr>, [])) = Inl IndexError"
  by (simp add: get_instance_eq replay_describe get_result_def)

lemma test_double_describe_i9:
  "describe_instances test_double (Some [''i-9'']) [record_i1, record_i2]
     = (Inr \<lparr>Reservations = []\<rparr>, [record_i1, record_i2])"
  by (simp add: test_double_def has_id_def record_i1_def record_i2_def)

lemma except_ClientError_get_result:
  "except_ClientError h (get_result iid r) = get_result iid r"
proof (cases "get_result iid r")
  case (Inl e)
  have "\<forall>m. e \<noteq> ClientError m"
  proof (intro allI notI)
    fix m assume "e = ClientError m"
    with Inl get_result_not_ClientError [of iid r m] show False by simp
  qed
  with Inl show ?thesis
    by (cases e) (simp_all add: except_ClientError_simps)
next
  case (Inr i)
  then show ?thesis by (simp add: except_ClientError_simps)
qed

lemma lifecycle_shape:
  "(case (case invoke q m (s, log) of
            (Inl e, w') \<Rightarrow> (Inl e, w')
          | (Inr _, w') \<Rightarrow> get_instance client iid w') of
      (r, w'') \<Rightarrow> (except_ClientError h r, w''))
   = (case fst (m s) of
        Inr u \<Rightarrow> get_instance client iid (snd (m s), log @ [q])
      | Inl e \<Rightarrow> (except_ClientError h (Inl e), (snd (m s), log @ [q])))"
  by (cases "m s")
     (auto simp: invoke_def get_instance_eq except_ClientError_get_result split: sum.splits)

lemma start_instance_eq:
  "start_instance client iid (s, log) =
    (case fst (start_instances client [iid] s) of
       Inr u \<Rightarrow> get_instance client iid (snd (start_instances client [iid] s), log @ [StartInstances [iid]])
     | Inl e \<Rightarrow>
        (except_ClientError
           (\<lambda>e. HTTPException 400 (''Failed to start instance '' @ iid @ '': '' @ e)) (Inl e),
         (snd (start_instances client [iid] s), log @ [StartInstances [iid]])))"
  unfolding start_instance_def by (rule lifecycle_shape)

lemma stop_instance_eq:
  "stop_instance client iid (s, log) =
    (case fst (stop_instances client [iid] s) of
       Inr u \<Rightarrow> get_instance client iid (snd (stop_instances client [iid] s), log @ [StopInstances [iid]])
     | Inl e \<Rightarrow>
        (except_ClientError
           (\<lambda>e. HTTPException 400 (''Failed to stop instance '' @ iid @ '': '' @ e)) (Inl e),
         (snd (stop_instances client [iid] s), log @ [StopInstances [iid]])))"
  unfolding stop_instance_def by (rule lifecycle_shape)

lemma terminate_instance_eq:
  "terminate_instance client iid (s, log) =
    (case fst (terminate_instances client [iid] s) of
       Inr u \<Rightarrow> get_instance client iid
                  (snd (terminate_instances client [iid] s), log @ [TerminateInstances [iid]])
     | Inl e \<Rightarrow>
        (except_ClientError
           (\<lambda>e. HTTPException 400 (''Failed to terminate instance '' @ iid @ '': '' @ e)) (Inl e),
         (snd (terminate_instances client [iid] s), log @ [TerminateInstances [iid]])))"
  unfolding terminate_instance_def by (rule lifecycle_shape)

lemma lifecycle_properties:
  assumes op: "\<And>log. operation client iid (s, log) =
      (case fst (m s) of
         Inr u \<Rightarrow> get_instance client iid (snd (m s), log @ [q])
       | Inl e \<Rightarrow> (except_ClientError h (Inl e), (snd (m s), log @ [q])))"
    and q: "mutating q"
    and ms: "m s = (r, s1)"
  shows "filter mutating (drop (length log) (snd (snd (operation client iid (s, log))))) = [q]"
    and "take (Suc (length log)) (snd (snd (operation client iid (s, log)))) = log @ [q]"
    and "r = Inr () \<longrightarrow> operation client iid (s, log) = get_instance client iid (s1, log @ [q])"
    and "r = Inr () \<longrightarrow> fst (describe_instances client (Some [iid]) s1) = Inr response \<longrightarrow>
         Reservations response = r0 # rs \<longrightarrow> Instances r0 = i0 # others \<longrightarrow>
         fst (operation client iid (s, log)) = Inr inst \<longrightarrow>
         map_option Name (State i0) = Some (Some (state inst))"
proof -
  show "filter mutating (drop (length log) (snd (snd (operation client iid (s, log))))) = [q]"
    using q ms by (cases r) (simp_all add: op get_instance_eq)
  show "take (Suc (length log)) (snd (snd (operation client iid (s, log)))) = log @ [q]"
    using ms by (cases r) (simp_all add: op get_instance_eq)
  show "r = Inr () \<longrightarrow> operation client iid (s, log) = get_instance client iid (s1, log @ [q])"
    using ms by (simp add: op)
  show "r = Inr () \<longrightarrow> fst (describe_instances client (Some [iid]) s1) = Inr response \<longrightarrow>
         Reservations response = r0 # rs \<longrightarrow> Instances r0 = i0 # others \<longrightarrow>
         fst (operation client iid (s, log)) = Inr inst \<longrightarrow>
         map_option Name (State i0) = Some (Some (state inst))"
    using ms convert_fields(3) [of i0 inst]
    by (simp add: op get_instance_eq get_result_def)
qed

lemma td_start_i1:
  "start_instances test_double [''i-1''] [record_i1, record_i2] = (Inr (), [record_i1, record_i2])"
  by (simp add: test_double_def set_power_state_def has_id_def record_i1_def record_i2_def)

lemma td_describe_i1:
  "describe_instances test_double (Some [''i-1'']) [record_i1, record_i2]
     = (Inr \<lparr>Reservations = [\<lparr>Instances = [record_i1]\<rparr>]\<rparr>, [record_i1, record_i2])"
  by (simp add: test_double_def has_id_def record_i1_def record_i2_def)

lemma td_stop_i1:
  "stop_instances test_double [''i-1''] [record_i1, record_i2]
     = (Inr (), [record_i1\<lparr>State := Some \<lparr>Name = Some ''stopped''\<rparr>\<rparr>, record_i2])"
  by (simp add: test_double_def set_power_state_def has_id_def record_i1_def record_i2_def)

lemma td_describe_i1_stopped:
  "describe_instances test_double (Some [''i-1''])
      [record_i1\<lparr>State := Some \<lparr>Name = Some ''stopped''\<rparr>\<rparr>, record_i2]
     = (Inr \<lparr>Reservations = [\<lparr>Instances = [record_i1\<lparr>State := Some \<lparr>Name = Some ''stopped''\<rparr>\<rparr>]\<rparr>]\<rparr>,
        [record_i1\<lparr>State := Some \<lparr>Name = Some ''stopped''\<rparr>\<rparr>, record_i2])"
  by (simp add: test_double_def has_id_def record_i1_def record_i2_def)

lemma convert_i1_stopped:
  "convert_to_ec2_instance (record_i1\<lparr>State := Some \<lparr>Name = Some ''stopped''\<rparr>\<rparr>)
     = Inr (instance_i1\<lparr>state := ''stopped''\<rparr>)"
  by (simp add: convert_to_ec2_instance_def record_i1_def instance_i1_def get_default_def)

lemma td_terminate_i2:
  "terminate_instances test_double [''i-2''] [record_i1, record_i2]
     = (Inr (), [record_i1, record_i2\<lparr>State := Some \<lparr>Name = Some ''shutting-down''\<rparr>\<rparr>])"
  by (simp add: test_double_def set_power_state_def has_id_def record_i1_def record_i2_def)

lemma td_describe_i2_down:
  "describe_instances test_double (Some [''i-2''])
      [record_i1, record_i2\<lparr>State := Some \<lparr>Name = Some ''shutting-down''\<rparr>\<rparr>]
     = (Inr \<lparr>Reservations =
              [\<lparr>Instances = [record_i2\<lparr>State := Some \<lparr>Name = Some ''shutting-down''\<rparr>\<rparr>]\<rparr>]\<rparr>,
        [record_i1, record_i2\<lparr>State := Some \<lparr>Name = Some ''shutting-down''\<rparr>\<rparr>])"
  by (simp add: test_double_def has_id_def record_i1_def record_i2_def)

lemma convert_i2_down:
  "convert_to_ec2_instance (record_i2\<lparr>State := Some \<lparr>Name = Some ''shutting-down''\<rparr>\<rparr>)
     = Inr (instance_i2\<lparr>state := ''shutting-down''\<rparr>)"
  by (simp add: convert_to_ec2_instance_def record_i2_def instance_i2_def get_default_def)

lemma count_states_lookup:
  "map_of (count_states xs acc) st =
    (case map_of acc st of
       None \<Rightarrow> (if st \<in> state ` set xs then Some (length (filter (\<lambda>i. state i = st) xs)) else None)
     | Some m \<Rightarrow> Some (m + length (filter (\<lambda>i. state i = st) xs)))"
proof (induction xs arbitrary: acc)
  case Nil
  then show ?case by (simp split: option.splits)
next
  case (Cons x xs)
  show ?case
    by (auto simp: Cons.IH update_conv' get_default_def filter_empty_conv image_iff
        split: option.splits)
qed

lemma count_states_distinct:
  "distinct (map fst acc) \<Longrightarrow> distinct (map fst (count_states xs acc))"
  by (induction xs arbitrary: acc) (simp_all add: distinct_update)

lemma get_status_summary_eq:
  "fst (list_instances service w) = Inr instances \<Longrightarrow>
   fst (get_status_summary service now w) =
     Inr \<lparr> total_instances = length instances,
           status_breakdown = count_states instances [],
           timestamp = now \<rparr>"
  by (cases "list_instances service w") (auto simp: get_status_summary_def)

section \<open>Malformed records (C1)\<close>

text \<open>
  Claim C1, as stated, fails on the second half. A record without \<^verbatim>\<open>InstanceId\<close> makes
  \<^verbatim>\<open>list_instances\<close> and \<^verbatim>\<open>get_instance\<close> fail with the translator's own \<open>KeyError\<close>: the
  \<^verbatim>\<open>except\<close> clauses catch \<open>ClientError\<close> only, so the error is not turned into the
  \<open>HTTPException\<close> that reports a failed provider query.
\<close>

theorem malformed_record_not_wrapped_counterexample:
  "missing_required record_no_id
   \<and> fst (list_instances replay
            (\<lparr>Reservations = [\<lparr>Instances = [record_i1, record_no_id]\<rparr>]\<rparr>, []))
       = Inl (KeyError ''InstanceId'')
   \<and> fst (get_instance replay ''i-1'' (\<lparr>Reservations = [\<lparr>Instances = [record_no_id]\<rparr>]\<rparr>, []))
       = Inl (KeyError ''InstanceId'')
   \<and> \<not> ProviderQueryFailed (KeyError ''InstanceId'')"
  by (simp add: list_instances_eq get_instance_eq replay_describe get_result_def
      convert_i1 convert_no_id ProviderQueryFailed_def)
     (simp add: missing_required_def record_no_id_def)

text \<open>
  Claim C1, amended. For every provider record missing a required field (the id, the
  instance type, the state or its name, the launch time), translation fails with a
  \<open>KeyError\<close> and yields no instance; when such a record is among those that a list call
  translates, or is the record that a get call translates, the call fails with a
  \<open>KeyError\<close> that reaches the caller as it is, neither swallowed nor wrapped.
\<close>

theorem malformed_record_raises_KeyError:
  assumes "missing_required r"
  shows "(\<exists>k. convert_to_ec2_instance r = Inl (KeyError k))
       \<and> (fst (describe_instances client None s) = Inr response
            \<longrightarrow> r \<in> set (records_of response)
            \<longrightarrow> (\<exists>k. fst (list_instances client (s, log)) = Inl (KeyError k)))
       \<and> (fst (describe_instances client (Some [iid]) s) = Inr response
            \<longrightarrow> Reservations response = r0 # rs
            \<longrightarrow> Instances r0 = r # others
            \<longrightarrow> (\<exists>k. fst (get_instance client iid (s, log)) = Inl (KeyError k)))"
proof -
  from convert_missing [OF assms] obtain k
    where k: "convert_to_ec2_instance r = Inl (KeyError k)" by blast
  have "\<exists>k. fst (list_instances client (s, log)) = Inl (KeyError k)"
    if d: "fst (describe_instances client None s) = Inr response"
      and m: "r \<in> set (records_of response)"
  proof -
    from m have "r \<in> set (concat (map Instances (Reservations response)))"
      by (simp add: records_of_def)
    from convert_reservations_fails [OF this k, of "[]"] obtain e
      where e: "convert_reservations (Reservations response) [] = Inl e" by blast
    from convert_reservations_Inl [OF e] convert_KeyError obtain k'
      where "e = KeyError k'" by blast
    with e d show ?thesis by (simp add: list_instances_eq)
  qed
  moreover
  have "\<exists>k. fst (get_instance client iid (s, log)) = Inl (KeyError k)"
    if "fst (describe_instances client (Some [iid]) s) = Inr response"
      and "Reservations response = r0 # rs" and "Instances r0 = r # others"
    using that k by (simp add: get_instance_eq get_result_def)
  ultimately show ?thesis using k by blast
qed

theorem malformed_record_raises_KeyError_witness:
  "missing_required record_no_id
   \<and> (\<exists>k. convert_to_ec2_instance record_no_id = Inl (KeyError k))
   \<and> (\<exists>k. fst (list_instances replay
                  (\<lparr>Reservations = [\<lparr>Instances = [record_i1, record_no_id]\<rparr>]\<rparr>, []))
            = Inl (KeyError k))
   \<and> (\<exists>k. fst (get_instance replay ''i-1''
                  (\<lparr>Reservations = [\<lparr>Instances = [record_no_id]\<rparr>]\<rparr>, []))
            = Inl (KeyError k))"
proof -
  have m: "missing_required record_no_id"
    by (simp add: missing_required_def record_no_id_def)
  show ?thesis
    using m
      malformed_record_raises_KeyError [OF m, where client = replay and log = "[]"
        and s = "\<lparr>Reservations = [\<lparr>Instances = [record_i1, record_no_id]\<rparr>]\<rparr>"
        and response = "\<lparr>Reservations = [\<lparr>Instances = [record_i1, record_no_id]\<rparr>]\<rparr>"]
      malformed_record_raises_KeyError [OF m, where client = replay and log = "[]"
        and iid = "''i-1''"
        and s = "\<lparr>Reservations = [\<lparr>Instances = [record_no_id]\<rparr>]\<rparr>"
        and response = "\<lparr>Reservations = [\<lparr>Instances = [record_no_id]\<rparr>]\<rparr>"
        and ?r0.0 = "\<lparr>Instances = [record_no_id]\<rparr>" and rs = "[]" and others = "[]"]
    by (simp add: replay_describe records_of_def)
qed

section \<open>The instance id (C2)\<close>

text \<open>
  Claim C2, as stated, fails on its first half: the translator checks that the key
  \<^verbatim>\<open>InstanceId\<close> is present, not that its value is non-empty. A record whose id is the
  empty string is accepted and gives an instance with an empty id.
\<close>

theorem empty_id_accepted_counterexample:
  "convert_to_ec2_instance record_empty_id = Inr (instance_i1\<lparr>instance_id := ''''\<rparr>)
   \<and> instance_id (instance_i1\<lparr>instance_id := ''''\<rparr>) = ''''"
  by (simp add: convert_to_ec2_instance_def record_empty_id_def record_i1_def instance_i1_def
      get_default_def)

text \<open>
  Claim C2, amended. For every provider record the translator accepts, the id of the
  instance is the record's \<^verbatim>\<open>InstanceId\<close> value unchanged, hence non-empty whenever that
  value is non-empty; translation fails whenever the record has no \<^verbatim>\<open>InstanceId\<close> key.
\<close>

theorem instance_id_is_record_id:
  "(convert_to_ec2_instance r = Inr i
      \<longrightarrow> InstanceId r = Some (instance_id i)
          \<and> (InstanceId r \<noteq> Some '''' \<longrightarrow> instance_id i \<noteq> ''''))
   \<and> (InstanceId r = None \<longrightarrow> (\<exists>k. convert_to_ec2_instance r = Inl (KeyError k)))"
proof -
  have "InstanceId r = Some (instance_id i) \<and> (InstanceId r \<noteq> Some '''' \<longrightarrow> instance_id i \<noteq> '''')"
    if "convert_to_ec2_instance r = Inr i"
    using convert_fields(1) [OF that] by auto
  moreover
  have "\<exists>k. convert_to_ec2_instance r = Inl (KeyError k)" if "InstanceId r = None"
    using convert_missing [of r] that by (simp add: missing_required_def)
  ultimately show ?thesis by blast
qed

theorem instance_id_is_record_id_witness:
  "convert_to_ec2_instance record_i1 = Inr instance_i1
   \<and> InstanceId record_i1 = Some (instance_id instance_i1)
   \<and> InstanceId record_i1 \<noteq> Some '''' \<and> instance_id instance_i1 \<noteq> ''''
   \<and> InstanceId record_no_id = None
   \<and> (\<exists>k. convert_to_ec2_instance record_no_id = Inl (KeyError k))"
  using instance_id_is_record_id [of record_i1 instance_i1]
    instance_id_is_record_id [of record_no_id instance_i1]
  by (simp add: convert_i1) (simp add: record_i1_def record_no_id_def)

section \<open>Filters (C3)\<close>

text \<open>
  Claim C3. For every list of translated instances and every pair of optional filters,
  the handler keeps exactly the instances whose \<open>environment\<close> and \<open>instance_type\<close> equal
  (as strings, so case-sensitively) each filter that is supplied non-empty; a filter that
  is \<open>None\<close> or empty constrains nothing; with both filters the result is the intersection
  of the two single-filter results, as lists and as sets. The handler returns this list
  whenever the service call succeeds.
\<close>

theorem filters_keep_exact_matches:
  "apply_filters e t xs =
     filter (\<lambda>i. (e \<noteq> None \<and> e \<noteq> Some '''' \<longrightarrow> environment i = e)
               \<and> (t \<noteq> None \<and> t \<noteq> Some '''' \<longrightarrow> Some (instance_type i) = t)) xs
   \<and> apply_filters e t xs =
       filter (\<lambda>i. i \<in> set (apply_filters None t xs)) (apply_filters e None xs)
   \<and> set (apply_filters e t xs) = set (apply_filters e None xs) \<inter> set (apply_filters None t xs)
   \<and> (fst (list_instances service w) = Inr xs
        \<longrightarrow> fst (list_instances_route service e t w) = Inr (apply_filters e t xs))"
proof -
  have a: "apply_filters e t xs =
     filter (\<lambda>i. (e \<noteq> None \<and> e \<noteq> Some '''' \<longrightarrow> environment i = e)
               \<and> (t \<noteq> None \<and> t \<noteq> Some '''' \<longrightarrow> Some (instance_type i) = t)) xs"
    by (simp add: apply_filters_eq truthy_iff)
  have b: "apply_filters e t xs =
       filter (\<lambda>i. i \<in> set (apply_filters None t xs)) (apply_filters e None xs)"
    by (auto simp: apply_filters_eq truthy_iff intro: filter_cong)
  have c: "set (apply_filters e t xs) = set (apply_filters e None xs) \<inter> set (apply_filters None t xs)"
    by (auto simp: apply_filters_eq truthy_iff)
  have d: "fst (list_instances service w) = Inr xs
        \<longrightarrow> fst (list_instances_route service e t w) = Inr (apply_filters e t xs)"
    by (simp add: list_instances_route_eq)
  from a b c d show ?thesis by blast
qed

theorem filters_keep_exact_matches_witness:
  "fst (list_instances test_double ([record_i1, record_i2], [])) = Inr [instance_i1, instance_i2]
   \<and> fst (list_instances_route test_double (Some ''prod'') (Some ''t2.micro'')
            ([record_i1, record_i2], [])) = Inr [instance_i1]
   \<and> apply_filters (Some ''prod'') None [instance_i1, instance_i2] = [instance_i1]
   \<and> apply_filters None (Some ''t2.micro'') [instance_i1, instance_i2] = [instance_i1]
   \<and> apply_filters (Some ''Prod'') (Some '''') [instance_i1, instance_i2] = []
   \<and> apply_filters (Some '''') None [instance_i1, instance_i2] = [instance_i1, instance_i2]"
  using
    filters_keep_exact_matches [of "Some ''prod''" "Some ''t2.micro''"
      "[instance_i1, instance_i2]" test_double "([record_i1, record_i2], [])"]
    filters_keep_exact_matches [of "Some ''prod''" None
      "[instance_i1, instance_i2]" test_double "([record_i1, record_i2], [])"]
    filters_keep_exact_matches [of None "Some ''t2.micro''"
      "[instance_i1, instance_i2]" test_double "([record_i1, record_i2], [])"]
    filters_keep_exact_matches [of "Some ''Prod''" "Some ''''"
      "[instance_i1, instance_i2]" test_double "([record_i1, record_i2], [])"]
    filters_keep_exact_matches [of "Some ''''" None
      "[instance_i1, instance_i2]" test_double "([record_i1, record_i2], [])"]
  by (simp add: list_two) (simp add: instance_i1_def instance_i2_def)

section \<open>Reading one instance (C4)\<close>

text \<open>
  Claim C4, as stated, fails on its second outcome. \<^verbatim>\<open>get_instance\<close> catches
  \<open>ClientError\<close> only, as every method of the service does: when the describe call fails
  with another exception, here the connection error of a provider that cannot be reached,
  the exception reaches the caller as it is, and is neither \<open>InstanceNotFound\<close> nor the
  \<open>HTTPException\<close> of a failed provider query.
\<close>

theorem get_provider_error_not_wrapped_counterexample:
  "fst (describe_instances unreachable (Some [''i-1'']) ())
     = Inl (BotoCoreError ''EndpointConnectionError'')
   \<and> fst (get_instance unreachable ''i-1'' ((), []))
       = Inl (BotoCoreError ''EndpointConnectionError'')
   \<and> \<not> ProviderQueryFailed (BotoCoreError ''EndpointConnectionError'')
   \<and> BotoCoreError ''EndpointConnectionError'' \<noteq> InstanceNotFound ''i-1''"
  by (simp add: get_instance_eq unreachable_describe get_result_def InstanceNotFound_def
      ProviderQueryFailed_def)

text \<open>
  Claim C4, amended. For every id, \<^verbatim>\<open>get_instance\<close> issues one describe call restricted to
  that id. When the call raises \<open>ClientError\<close> it fails with the \<open>HTTPException\<close> of a
  failed provider query; when the call raises any other exception, that exception reaches
  the caller unchanged; when the provider returns no reservation it fails with
  \<open>InstanceNotFound\<close>; and when the first reservation lists at least one instance it
  returns the translation of exactly one record, the first instance of the first
  reservation, whatever else the response holds.
\<close>

theorem get_instance_cases:
  assumes "describe_instances client (Some [iid]) s = (r, s')"
  shows "snd (get_instance client iid (s, log)) = (s', log @ [DescribeInstances (Some [iid])])
       \<and> (r = Inl (ClientError e) \<longrightarrow>
            fst (get_instance client iid (s, log))
              = Inl (HTTPException 404 (''Failed to get instance '' @ iid @ '': '' @ e))
            \<and> ProviderQueryFailed
                (HTTPException 404 (''Failed to get instance '' @ iid @ '': '' @ e)))
       \<and> (r = Inl x \<longrightarrow> (\<forall>m. x \<noteq> ClientError m) \<longrightarrow>
            fst (get_instance client iid (s, log)) = Inl x)
       \<and> (r = Inr response \<longrightarrow> Reservations response = [] \<longrightarrow>
            fst (get_instance client iid (s, log)) = Inl (InstanceNotFound iid))
       \<and> (r = Inr response \<longrightarrow> Reservations response = r0 # rs \<longrightarrow> Instances r0 = i0 # others \<longrightarrow>
            fst (get_instance client iid (s, log)) = convert_to_ec2_instance i0)"
proof -
  have "fst (get_instance client iid (s, log)) = Inl x"
    if "r = Inl x" and "\<forall>m. x \<noteq> ClientError m"
    using that assms by (cases x) (simp_all add: get_instance_eq get_result_def)
  then show ?thesis
    using assms by (simp add: get_instance_eq get_result_def ProviderQueryFailed_def)
qed

theorem get_instance_cases_witness:
  "get_instance denying ''i-1'' ((), [])
     = (Inl (HTTPException 404 ''Failed to get instance i-1: AuthFailure''),
        ((), [DescribeInstances (Some [''i-1''])]))
   \<and> get_instance unreachable ''i-1'' ((), [])
     = (Inl (BotoCoreError ''EndpointConnectionError''),
        ((), [DescribeInstances (Some [''i-1''])]))
   \<and> get_instance test_double ''i-9'' ([record_i1, record_i2], [])
     = (Inl (InstanceNotFound ''i-9''),
        ([record_i1, record_i2], [DescribeInstances (Some [''i-9''])]))
   \<and> fst (get_instance replay ''i-2''
        (\<lparr>Reservations = [\<lparr>Instances = [record_i2, record_i1]\<rparr>, \<lparr>Instances = [record_bare]\<rparr>]\<rparr>, []))
     = Inr instance_i2"
proof -
  let ?resp = "\<lparr>Reservations = [\<lparr>Instances = [record_i2, record_i1]\<rparr>, \<lparr>Instances = [record_bare]\<rparr>]\<rparr>"
  have "get_instance denying ''i-1'' ((), [])
     = (Inl (HTTPException 404 ''Failed to get instance i-1: AuthFailure''),
        ((), [DescribeInstances (Some [''i-1''])]))"
    using get_instance_cases [OF denying_describe, where log = "[]" and e = "''AuthFailure''"
        and iid = "''i-1''" and s = "()"]
    by (simp add: prod_eq_iff)
  moreover
  have "get_instance unreachable ''i-1'' ((), [])
     = (Inl (BotoCoreError ''EndpointConnectionError''),
        ((), [DescribeInstances (Some [''i-1''])]))"
    using get_instance_cases [OF unreachable_describe, where log = "[]"
        and x = "BotoCoreError ''EndpointConnectionError''" and iid = "''i-1''" and s = "()"]
    by (simp add: prod_eq_iff)
  moreover
  have "get_instance test_double ''i-9'' ([record_i1, record_i2], [])
     = (Inl (InstanceNotFound ''i-9''),
        ([record_i1, record_i2], [DescribeInstances (Some [''i-9''])]))"
    using get_instance_cases [OF test_double_describe_i9, where log = "[]"
        and response = "\<lparr>Reservations = []\<rparr>"]
    by (simp add: prod_eq_iff)
  moreover
  have "fst (get_instance replay ''i-2'' (?resp, [])) = Inr instance_i2"
    using get_instance_cases [OF replay_describe, where log = "[]" and response = ?resp
        and s = ?resp and iid = "''i-2''"
        and ?r0.0 = "\<lparr>Instances = [record_i2, record_i1]\<rparr>"
        and rs = "[\<lparr>Instances = [record_bare]\<rparr>]" and ?i0.0 = record_i2 and others = "[record_i1]"]
    by (simp add: convert_i2)
  ultimately show ?thesis by simp
qed

section \<open>Lifecycle operations (C5)\<close>

text \<open>
  Claim C5. For every id, provider and provider state, each of \<^verbatim>\<open>start_instance\<close>,
  \<^verbatim>\<open>stop_instance\<close> and \<^verbatim>\<open>terminate_instance\<close> issues exactly one mutating request, for that
  id alone, and issues it first, whatever the state of the instance (no request precedes
  it, so nothing is short-circuited). When that request succeeds the operation returns
  what \<^verbatim>\<open>get_instance\<close> returns in the provider state the request left, so the \<open>state\<close> of
  the instance returned is the state name the provider reports in that describe call.
\<close>

theorem lifecycle_one_call_then_get:
  assumes "(operation, mutator, req) \<in>
      {(start_instance, start_instances, StartInstances),
       (stop_instance, stop_instances, StopInstances),
       (terminate_instance, terminate_instances, TerminateInstances)}"
    and "mutator client [iid] s = (r, s1)"
  shows "filter mutating (drop (length log) (snd (snd (operation client iid (s, log))))) = [req [iid]]
       \<and> take (Suc (length log)) (snd (snd (operation client iid (s, log)))) = log @ [req [iid]]
       \<and> (r = Inr () \<longrightarrow>
            operation client iid (s, log) = get_instance client iid (s1, log @ [req [iid]]))
       \<and> (r = Inr () \<longrightarrow> fst (describe_instances client (Some [iid]) s1) = Inr response \<longrightarrow>
            Reservations response = r0 # rs \<longrightarrow> Instances r0 = i0 # others \<longrightarrow>
            fst (operation client iid (s, log)) = Inr inst \<longrightarrow>
            map_option Name (State i0) = Some (Some (state inst)))"
proof -
  from assms(1) consider
      (start) "operation = start_instance" "mutator = start_instances" "req = StartInstances"
    | (stop) "operation = stop_instance" "mutator = stop_instances" "req = StopInstances"
    | (terminate) "operation = terminate_instance" "mutator = terminate_instances"
        "req = TerminateInstances"
    by auto
  then show ?thesis
  proof cases
    case start
    have m: "start_instances client [iid] s = (r, s1)" using assms(2) start by simp
    from lifecycle_properties [where operation = start_instance
        and m = "start_instances client [iid]" and q = "StartInstances [iid]",
        OF start_instance_eq _ m]
    show ?thesis unfolding start by simp
  next
    case stop
    have m: "stop_instances client [iid] s = (r, s1)" using assms(2) stop by simp
    from lifecycle_properties [where operation = stop_instance
        and m = "stop_instances client [iid]" and q = "StopInstances [iid]",
        OF stop_instance_eq _ m]
    show ?thesis unfolding stop by simp
  next
    case terminate
    have m: "terminate_instances client [iid] s = (r, s1)" using assms(2) terminate by simp
    from lifecycle_properties [where operation = terminate_instance
        and m = "terminate_instances client [iid]" and q = "TerminateInstances [iid]",
        OF terminate_instance_eq _ m]
    show ?thesis unfolding terminate by simp
  qed
qed

theorem lifecycle_one_call_then_get_witness:
  "start_instance test_double ''i-1'' ([record_i1, record_i2], [])
     = (Inr instance_i1,
        ([record_i1, record_i2], [StartInstances [''i-1''], DescribeInstances (Some [''i-1''])]))
   \<and> state instance_i1 = ''running''
   \<and> fst (stop_instance test_double ''i-1'' ([record_i1, record_i2], []))
       = Inr (instance_i1\<lparr>state := ''stopped''\<rparr>)
   \<and> filter mutating (snd (snd (stop_instance test_double ''i-1'' ([record_i1, record_i2], []))))
       = [StopInstances [''i-1'']]
   \<and> fst (terminate_instance test_double ''i-2'' ([record_i1, record_i2], []))
       = Inr (instance_i2\<lparr>state := ''shutting-down''\<rparr>)
   \<and> filter mutating (snd (snd (terminate_instance test_double ''i-2'' ([record_i1, record_i2], []))))
       = [TerminateInstances [''i-2'']]"
proof -
  have start: "start_instance test_double ''i-1'' ([record_i1, record_i2], [])
     = (Inr instance_i1,
        ([record_i1, record_i2], [StartInstances [''i-1''], DescribeInstances (Some [''i-1''])]))
     \<and> state instance_i1 = ''running''"
    using lifecycle_one_call_then_get [where operation = start_instance
        and mutator = start_instances and req = StartInstances, OF _ td_start_i1,
        where log = "[]" and response = "\<lparr>Reservations = [\<lparr>Instances = [record_i1]\<rparr>]\<rparr>"
        and ?r0.0 = "\<lparr>Instances = [record_i1]\<rparr>" and rs = "[]" and ?i0.0 = record_i1
        and others = "[]" and inst = instance_i1]
    by (simp add: get_instance_eq td_describe_i1 get_result_def convert_i1)
       (simp add: record_i1_def)
  have stop: "fst (stop_instance test_double ''i-1'' ([record_i1, record_i2], []))
       = Inr (instance_i1\<lparr>state := ''stopped''\<rparr>)
     \<and> filter mutating (snd (snd (stop_instance test_double ''i-1'' ([record_i1, record_i2], []))))
       = [StopInstances [''i-1'']]"
    using lifecycle_one_call_then_get [where operation = stop_instance
        and mutator = stop_instances and req = StopInstances, OF _ td_stop_i1, where log = "[]"]
    by (simp add: get_instance_eq td_describe_i1_stopped get_result_def convert_i1_stopped)
  have terminate: "fst (terminate_instance test_double ''i-2'' ([record_i1, record_i2], []))
       = Inr (instance_i2\<lparr>state := ''shutting-down''\<rparr>)
     \<and> filter mutating
         (snd (snd (terminate_instance test_double ''i-2'' ([record_i1, record_i2], []))))
       = [TerminateInstances [''i-2'']]"
    using lifecycle_one_call_then_get [where operation = terminate_instance
        and mutator = terminate_instances and req = TerminateInstances, OF _ td_terminate_i2,
        where log = "[]"]
    by (simp add: get_instance_eq td_describe_i2_down get_result_def convert_i2_down)
  from start stop terminate show ?thesis by simp
qed

section \<open>Order of the listing (C6)\<close>

text \<open>
  Claim C6. When the list call succeeds, the instances are the translations of the
  provider's records in the provider's order (reservation by reservation, instance by
  instance); the handler's filters keep a subsequence of that list, so the relative order
  is preserved and nothing is sorted.
\<close>

theorem list_keeps_provider_order:
  assumes "fst (describe_instances client None s) = Inr response"
    and "fst (list_instances client (s, log)) = Inr instances"
  shows "map Inr instances = map convert_to_ec2_instance (records_of response)
       \<and> fst (list_instances_route client e t (s, log)) = Inr (apply_filters e t instances)
       \<and> apply_filters e t instances =
           filter (\<lambda>i. (truthy e \<longrightarrow> environment i = e)
                     \<and> (truthy t \<longrightarrow> Some (instance_type i) = t)) instances
       \<and> subseq (apply_filters e t instances) instances"
proof -
  from assms have "convert_reservations (Reservations response) [] = Inr instances"
    by (simp add: list_instances_eq)
  from convert_reservations_Inr [OF this]
  have "map Inr instances = map convert_to_ec2_instance (records_of response)"
    by (simp add: records_of_def)
  moreover
  have "fst (list_instances_route client e t (s, log)) = Inr (apply_filters e t instances)"
    using assms(2) by (simp add: list_instances_route_eq)
  moreover
  have "subseq (apply_filters e t instances) instances"
    by (simp add: apply_filters_eq)
  ultimately show ?thesis by (simp add: apply_filters_eq)
qed

theorem list_keeps_provider_order_witness:
  "fst (list_instances replay
          (\<lparr>Reservations = [\<lparr>Instances = [record_i2, record_bare]\<rparr>, \<lparr>Instances = []\<rparr>,
                            \<lparr>Instances = [record_i1]\<rparr>]\<rparr>, []))
     = Inr [instance_i2, instance_bare, instance_i1]
   \<and> fst (list_instances_route replay None (Some ''t2.large'')
          (\<lparr>Reservations = [\<lparr>Instances = [record_i2, record_bare]\<rparr>, \<lparr>Instances = []\<rparr>,
                            \<lparr>Instances = [record_i1]\<rparr>]\<rparr>, []))
     = Inr [instance_i2]
   \<and> fst (list_instances_route replay None None
          (\<lparr>Reservations = [\<lparr>Instances = [record_i2, record_bare]\<rparr>, \<lparr>Instances = []\<rparr>,
                            \<lparr>Instances = [record_i1]\<rparr>]\<rparr>, []))
     = Inr [instance_i2, instance_bare, instance_i1]"
proof -
  let ?resp = "\<lparr>Reservations = [\<lparr>Instances = [record_i2, record_bare]\<rparr>, \<lparr>Instances = []\<rparr>,
                            \<lparr>Instances = [record_i1]\<rparr>]\<rparr>"
  have d: "fst (describe_instances replay None ?resp) = Inr ?resp"
    by (simp add: replay_describe)
  have l: "fst (list_instances replay (?resp, [])) = Inr [instance_i2, instance_bare, instance_i1]"
    by (simp add: list_instances_eq replay_describe convert_i1 convert_i2 convert_bare)
  show ?thesis
    using l list_keeps_provider_order [OF d l, of None "Some ''t2.large''"]
      list_keeps_provider_order [OF d l, of None None]
    by (simp add: truthy_def) (simp add: instance_i1_def instance_i2_def instance_bare_def)
qed

section \<open>Defaults of the optional fields (C7)\<close>

text \<open>
  Claim C7. For every provider record that translates, an address field or a \<open>Name\<close> /
  \<open>Environment\<close> tag that is absent, or whose value is the empty string, gives the empty
  string in the instance; the four optional fields are never \<open>None\<close>.
\<close>

theorem optional_fields_default_to_empty:
  assumes "convert_to_ec2_instance r = Inr i"
  shows "((PublicIpAddress r = None \<or> PublicIpAddress r = Some '''') \<longrightarrow> public_ip i = Some '''')
       \<and> ((PrivateIpAddress r = None \<or> PrivateIpAddress r = Some '''') \<longrightarrow> private_ip i = Some '''')
       \<and> ((Some ''Name'' \<notin> Key ` set (get_default (Tags r) []) \<or>
            last_tag_value ''Name'' (get_default (Tags r) []) = Some '''') \<longrightarrow> name i = Some '''')
       \<and> ((Some ''Environment'' \<notin> Key ` set (get_default (Tags r) []) \<or>
            last_tag_value ''Environment'' (get_default (Tags r) []) = Some '''')
              \<longrightarrow> environment i = Some '''')
       \<and> public_ip i \<noteq> None \<and> private_ip i \<noteq> None \<and> name i \<noteq> None \<and> environment i \<noteq> None"
proof -
  note f = convert_fields [OF assms]
  have "(PublicIpAddress r = None \<or> PublicIpAddress r = Some '''') \<longrightarrow> public_ip i = Some ''''"
    using f(5) by (auto simp: get_default_def)
  moreover
  have "(PrivateIpAddress r = None \<or> PrivateIpAddress r = Some '''') \<longrightarrow> private_ip i = Some ''''"
    using f(6) by (auto simp: get_default_def)
  moreover
  have "(Some ''Name'' \<notin> Key ` set (get_default (Tags r) []) \<or>
         last_tag_value ''Name'' (get_default (Tags r) []) = Some '''') \<longrightarrow> name i = Some ''''"
    using f(7) last_tag_value_absent [of "''Name''" "get_default (Tags r) []"]
    by (auto simp: get_default_def)
  moreover
  have "(Some ''Environment'' \<notin> Key ` set (get_default (Tags r) []) \<or>
         last_tag_value ''Environment'' (get_default (Tags r) []) = Some '''')
          \<longrightarrow> environment i = Some ''''"
    using f(8) last_tag_value_absent [of "''Environment''" "get_default (Tags r) []"]
    by (auto simp: get_default_def)
  moreover
  have "public_ip i \<noteq> None \<and> private_ip i \<noteq> None \<and> name i \<noteq> None \<and> environment i \<noteq> None"
    using f(5-8) by simp
  ultimately show ?thesis by blast
qed

theorem optional_fields_default_to_empty_witness:
  "convert_to_ec2_instance record_bare = Inr instance_bare
   \<and> PublicIpAddress record_bare = None \<and> public_ip instance_bare = Some ''''
   \<and> PrivateIpAddress record_bare = None \<and> private_ip instance_bare = Some ''''
   \<and> Some ''Name'' \<notin> Key ` set (get_default (Tags record_bare) [])
   \<and> name instance_bare = Some ''''
   \<and> Some ''Environment'' \<notin> Key ` set (get_default (Tags record_bare) [])
   \<and> environment instance_bare = Some ''''"
  using optional_fields_default_to_empty [OF convert_bare]
  by (simp add: convert_bare) (simp add: record_bare_def get_default_def)

section \<open>Tag update (C8)\<close>

text \<open>
  Claim C8, as stated, fails for the request bodies that the declaration \<^verbatim>\<open>tags: dict\<close>
  excludes: a body that is a JSON array, is absent or is not JSON is refused with
  \<open>RequestValidationError\<close> (status 422) before the handler runs, so the answer is not the
  \<open>NotImplemented\<close> error.
\<close>

theorem tag_update_body_not_object_counterexample:
  "fst (update_instance_tags_route replay ''i-1'' (JsonBody (JArray [JString ''Name'']))
          (\<lparr>Reservations = []\<rparr>, [])) = Inl RequestValidationError
   \<and> fst (update_instance_tags_route replay ''i-1'' NoBody (\<lparr>Reservations = []\<rparr>, []))
       = Inl RequestValidationError
   \<and> fst (update_instance_tags_route replay ''i-1'' (NotJson ''Name=web'')
          (\<lparr>Reservations = []\<rparr>, [])) = Inl RequestValidationError
   \<and> RequestValidationError \<noteq> NotImplemented"
  by (simp add: update_instance_tags_route_def NotImplemented_def)

text \<open>
  Claim C8, amended. For every instance id and every request body that is a JSON object,
  whatever its members, the tag-update route fails with the \<open>NotImplemented\<close> error
  (status 501); every other body is refused with \<open>RequestValidationError\<close>; and for every
  body the provider state and the request log are left as they were: no request is issued
  to the provider.
\<close>

theorem tag_update_not_implemented:
  "(body = JsonBody (JObject tags) \<longrightarrow>
      fst (update_instance_tags_route service iid body (s, log)) = Inl NotImplemented)
   \<and> ((\<forall>members. body \<noteq> JsonBody (JObject members)) \<longrightarrow>
      fst (update_instance_tags_route service iid body (s, log)) = Inl RequestValidationError)
   \<and> snd (update_instance_tags_route service iid body (s, log)) = (s, log)
   \<and> NotImplemented = HTTPException 501 ''Tag update functionality not implemented yet''"
proof -
  have obj: "update_instance_tags_route service iid (JsonBody (JObject members)) (s, log)
      = (Inl NotImplemented, (s, log))" for members
    by (simp add: update_instance_tags_route_def update_instance_tags_def NotImplemented_def)
  have other: "update_instance_tags_route service iid body (s, log)
      = (Inl RequestValidationError, (s, log))"
    if "\<forall>members. body \<noteq> JsonBody (JObject members)"
    using that
    by (auto simp: update_instance_tags_route_def split: request_body.splits json.splits)
  show ?thesis
  proof (cases "\<exists>members. body = JsonBody (JObject members)")
    case True
    then obtain members where b: "body = JsonBody (JObject members)" by blast
    show ?thesis unfolding b by (simp add: obj) (simp add: NotImplemented_def)
  next
    case False
    with other show ?thesis by (simp add: NotImplemented_def)
  qed
qed

theorem tag_update_not_implemented_witness:
  "update_instance_tags_route test_double ''i-1''
      (JsonBody (JObject [(''Name'', JString ''web''), (''Replicas'', JNumber 3)]))
      ([record_i1, record_i2], [])
     = (Inl NotImplemented, ([record_i1, record_i2], []))
   \<and> update_instance_tags_route test_double ''i-1'' (JsonBody (JObject []))
      ([record_i1, record_i2], [])
     = (Inl NotImplemented, ([record_i1, record_i2], []))
   \<and> update_instance_tags_route test_double ''i-1'' (JsonBody (JArray []))
      ([record_i1, record_i2], [])
     = (Inl RequestValidationError, ([record_i1, record_i2], []))"
  using
    tag_update_not_implemented [of
      "JsonBody (JObject [(''Name'', JString ''web''), (''Replicas'', JNumber 3)])"
      "[(''Name'', JString ''web''), (''Replicas'', JNumber 3)]"
      test_double "''i-1''" "[record_i1, record_i2]" "[]"]
    tag_update_not_implemented [of "JsonBody (JObject [])" "[]"
      test_double "''i-1''" "[record_i1, record_i2]" "[]"]
    tag_update_not_implemented [of "JsonBody (JArray [])" "[]"
      test_double "''i-1''" "[record_i1, record_i2]" "[]"]
  by (simp add: prod_eq_iff)

section \<open>Status summary (C9)\<close>

text \<open>
  Claim C9. When the list call succeeds with \<open>instances\<close>, the status summary reports
  \<open>total_instances\<close> equal to their number (the number of records in the provider's
  response), and \<open>status_breakdown\<close> holds each state that occurs exactly once, mapped to
  the number of instances in that state, and no other key. For two instances in the states
  \<open>running\<close> and \<open>stopped\<close> it reports 2 and \<open>{running: 1, stopped: 1}\<close>.
\<close>

theorem status_summary_counts:
  assumes "fst (list_instances service (s, log)) = Inr instances"
  shows "\<exists>summary.
      fst (get_status_summary service now (s, log)) = Inr summary
    \<and> total_instances summary = length instances
    \<and> (fst (describe_instances service None s) = Inr response
         \<longrightarrow> total_instances summary = length (records_of response))
    \<and> map_of (status_breakdown summary) st =
        (if st \<in> state ` set instances
         then Some (length (filter (\<lambda>i. state i = st) instances)) else None)
    \<and> distinct (map fst (status_breakdown summary))
    \<and> (instances = [i1, i2] \<longrightarrow> state i1 = ''running'' \<longrightarrow> state i2 = ''stopped''
         \<longrightarrow> total_instances summary = 2
           \<and> status_breakdown summary = [(''running'', 1), (''stopped'', 1)])"
proof -
  let ?summary = "\<lparr> total_instances = length instances,
           status_breakdown = count_states instances [], timestamp = now \<rparr>"
  have 1: "fst (get_status_summary service now (s, log)) = Inr ?summary"
    using assms by (rule get_status_summary_eq)
  have 2: "total_instances ?summary = length (records_of response)"
    if d: "fst (describe_instances service None s) = Inr response"
  proof -
    from assms d have "convert_reservations (Reservations response) [] = Inr instances"
      by (simp add: list_instances_eq)
    from convert_reservations_Inr [OF this]
    have "map Inr instances = map convert_to_ec2_instance (records_of response)"
      by (simp add: records_of_def)
    then have "length instances = length (records_of response)"
      by (metis length_map)
    then show ?thesis by simp
  qed
  have 3: "map_of (status_breakdown ?summary) st =
        (if st \<in> state ` set instances
         then Some (length (filter (\<lambda>i. state i = st) instances)) else None)"
    by (simp add: count_states_lookup)
  have 4: "distinct (map fst (status_breakdown ?summary))"
    by (simp add: count_states_distinct)
  have 5: "instances = [i1, i2] \<longrightarrow> state i1 = ''running'' \<longrightarrow> state i2 = ''stopped''
         \<longrightarrow> total_instances ?summary = 2
           \<and> status_breakdown ?summary = [(''running'', 1), (''stopped'', 1)]"
    by (simp add: get_default_def)
  from 1 2 3 4 5 show ?thesis by (intro exI [of _ ?summary]) simp
qed

theorem status_summary_counts_witness:
  "fst (list_instances test_double ([record_i1, record_i2], [])) = Inr [instance_i1, instance_i2]
   \<and> fst (get_status_summary test_double 1700003600 ([record_i1, record_i2], []))
       = Inr \<lparr> total_instances = 2,
               status_breakdown = [(''running'', 1), (''stopped'', 1)],
               timestamp = 1700003600 \<rparr>"
proof -
  have l: "fst (list_instances test_double ([record_i1, record_i2], []))
      = Inr [instance_i1, instance_i2]"
    by (simp add: list_two)
  show ?thesis
    using l status_summary_counts [OF l, where now = 1700003600 and ?i1.0 = instance_i1
        and ?i2.0 = instance_i2]
    by (simp add: get_status_summary_eq [OF l] get_default_def instance_i1_def instance_i2_def)
qed

section \<open>Repeated tag keys (C10)\<close>

text \<open>
  Claim C10. When the tag list of a record that translates holds several tags with the key
  \<open>Name\<close> (or \<open>Environment\<close>), the instance carries the value of the last of them: for a
  tag \<open>t\<close> with no later tag of the same key, the field is the value of \<open>t\<close>, whatever
  tags come before it.
\<close>

theorem duplicate_tag_last_wins:
  assumes "convert_to_ec2_instance r = Inr i"
    and "Tags r = Some (ts1 @ t # ts2)"
    and "\<forall>u\<in>set ts2. Key u \<noteq> Key t"
  shows "(Key t = Some ''Name'' \<longrightarrow> name i = Value t)
       \<and> (Key t = Some ''Environment'' \<longrightarrow> environment i = Value t)"
proof -
  have tags: "get_default (Tags r) [] = ts1 @ t # ts2"
    using assms(2) by (simp add: get_default_def)
  from convert_tags_wf [OF assms(1), of t] tags
  obtain v where v: "Value t = Some v"
    by auto
  note f = convert_fields [OF assms(1)]
  have "name i = Value t" if k: "Key t = Some ''Name''"
  proof -
    from assms(3) k have "\<forall>u\<in>set ts2. Key u \<noteq> Some ''Name''" by simp
    from last_tag_value_split [OF k this, of ts1] f(7) v show ?thesis
      by (simp add: assms(2) get_default_def)
  qed
  moreover
  have "environment i = Value t" if k: "Key t = Some ''Environment''"
  proof -
    from assms(3) k have "\<forall>u\<in>set ts2. Key u \<noteq> Some ''Environment''" by simp
    from last_tag_value_split [OF k this, of ts1] f(8) v show ?thesis
      by (simp add: assms(2) get_default_def)
  qed
  ultimately show ?thesis by blast
qed

theorem duplicate_tag_last_wins_witness:
  "convert_to_ec2_instance record_dup_tags = Inr instance_dup
   \<and> name instance_dup = Some ''new'' \<and> environment instance_dup = Some ''prod''"
proof -
  let ?n1 = "\<lparr>Key = Some ''Name'', Value = Some ''old''\<rparr>"
  let ?e1 = "\<lparr>Key = Some ''Environment'', Value = Some ''dev''\<rparr>"
  let ?n2 = "\<lparr>Key = Some ''Name'', Value = Some ''new''\<rparr>"
  let ?e2 = "\<lparr>Key = Some ''Environment'', Value = Some ''prod''\<rparr>"
  let ?o = "\<lparr>Key = Some ''Owner'', Value = Some ''ops''\<rparr>"
  have n: "Tags record_dup_tags = Some ([?n1, ?e1] @ ?n2 # [?e2, ?o])"
    by (simp add: record_dup_tags_def)
  have e: "Tags record_dup_tags = Some ([?n1, ?e1, ?n2] @ ?e2 # [?o])"
    by (simp add: record_dup_tags_def)
  have "name instance_dup = Some ''new''"
    using duplicate_tag_last_wins [OF convert_dup n] by simp
  moreover
  have "environment instance_dup = Some ''prod''"
    using duplicate_tag_last_wins [OF convert_dup e] by simp
  ultimately show ?thesis using convert_dup by simp
qed

end
